theory Spec2Isabelle
  imports Main
begin

section \<open>Components and style classes\<close>

text \<open>
  The three files of package \<^verbatim>\<open>gwu\<close> that are modelled here are
  \<^verbatim>\<open>chkbox_radio.go\<close>, \<^verbatim>\<open>tabpanel.go\<close> and \<^verbatim>\<open>textbox_pwbox.go\<close>.
  They rest on the component base (\<^verbatim>\<open>compImpl\<close>, \<^verbatim>\<open>buttonImpl\<close>), on the style
  bag and on \<^verbatim>\<open>panelImpl\<close>, whose files are not among the sources. Of those only
  the parts that the three files call are modelled, each from the words of the
  specification, and each says so.

  A component is a Go object behind a pointer. Its identity is its component id
  (\<^verbatim>\<open>Equals\<close> compares ids), so an object is referred to by its id.
\<close>

type_synonym ID = nat

datatype EventType = ETYPE_CLICK | ETYPE_CHANGE | ETYPE_KEY_UP

type_synonym style = "string list"

text \<open>
  Modelled from the spec: the style bag (``set/remove/query ... CSS-class membership'').
  The bag holds the style classes in the order they were added; \<^verbatim>\<open>AddClass\<close> adds a class
  that is not there yet, \<^verbatim>\<open>SetClass\<close> makes its argument the only class,
  \<^verbatim>\<open>RemoveClass\<close> takes a class out.
\<close>

definition AddClass :: "string \<Rightarrow> style \<Rightarrow> style" where
  "AddClass cl s = (if cl \<in> set s then s else s @ [cl])"

definition SetClass :: "string \<Rightarrow> style \<Rightarrow> style" where
  "SetClass cl s = [cl]"

definition RemoveClass :: "string \<Rightarrow> style \<Rightarrow> style" where
  "RemoveClass cl s = remove1 cl s"

definition HasClass :: "style \<Rightarrow> string \<Rightarrow> bool" where
  "HasClass s cl \<longleftrightarrow> cl \<in> set s"

text \<open>
  Modelled from the spec: the component base and the plain button (\<^verbatim>\<open>compImpl\<close>,
  \<^verbatim>\<open>buttonImpl\<close> and \<^verbatim>\<open>newButtonImpl\<close>, whose files are not among the sources):
  ``identity, attribute/style bag, enabled flag, a set of event kinds on which the value
  is synchronised'', and for a button its text. Attributes, the client-side value
  provider script and the handler lists only feed the renderer and the dispatcher and
  are left out.
\<close>

record compImpl =
  comp_id :: ID
  classes :: style
  syncOnETypes :: "EventType list"

record buttonImpl = compImpl +
  btn_text :: string
  enabled :: bool

definition newButtonImpl :: "ID \<Rightarrow> string \<Rightarrow> buttonImpl" where
  "newButtonImpl i t =
     \<lparr>comp_id = i, classes = [], syncOnETypes = [], btn_text = t, enabled = True\<rparr>"

section \<open>CheckBox, RadioButton and RadioGroup\<close>

text \<open>
  \<^verbatim>\<open>radioGroupImpl\<close> and \<^verbatim>\<open>stateButtonImpl\<close> as the source declares them. The
  interface values \<^verbatim>\<open>RadioButton\<close> and \<^verbatim>\<open>RadioGroup\<close> are references and may be
  \<^verbatim>\<open>nil\<close>: an \<open>option\<close> of an address.
\<close>

type_synonym RadioGroup = nat

record radioGroupImpl =
  name :: string
  selected :: "ID option"
  prevSelected :: "ID option"

record stateButtonImpl = buttonImpl +
  state :: bool
  inputType :: string
  group :: "RadioGroup option"
  inputId :: ID

text \<open>
  Buttons and groups are shared mutable objects: a button points to its group, the group
  points back to the selected button, and \<^verbatim>\<open>SetState\<close> on one button writes to another.
  The store maps every address to the object it holds; \<open>nextCompId\<close> is the id generator
  (modelled from the spec: ``opaque unique id, monotonic'') and \<open>nextGroup\<close> the next
  free group address.
\<close>

record heap =
  buttons :: "ID \<Rightarrow> stateButtonImpl"
  groups :: "RadioGroup \<Rightarrow> radioGroupImpl"
  nextCompId :: ID
  nextGroup :: RadioGroup

definition empty_heap :: heap where
  "empty_heap =
     \<lparr>buttons = (\<lambda>_. \<lparr>comp_id = 0, classes = [], syncOnETypes = [], btn_text = [],
                      enabled = True, state = False, inputType = [], group = None,
                      inputId = 0\<rparr>),
      groups = (\<lambda>_. \<lparr>name = [], selected = None, prevSelected = None\<rparr>),
      nextCompId = 0, nextGroup = 0\<rparr>"

definition NewRadioGroup :: "string \<Rightarrow> heap \<Rightarrow> RadioGroup \<times> heap" where
  "NewRadioGroup nm h =
     (let r = nextGroup h
      in (r, h\<lparr>groups := (groups h)(r := \<lparr>name = nm, selected = None, prevSelected = None\<rparr>),
               nextGroup := Suc r\<rparr>))"

definition newStateButtonImpl ::
  "string \<Rightarrow> string \<Rightarrow> RadioGroup option \<Rightarrow> heap \<Rightarrow> ID \<times> heap" where
  "newStateButtonImpl t ity grp h =
     (let i = nextCompId h;
          j = Suc i;
          c = \<lparr>comp_id = i, classes = [], syncOnETypes = [ETYPE_CLICK], btn_text = t,
               enabled = True, state = False, inputType = ity, group = grp, inputId = j\<rparr>
      in (i, h\<lparr>buttons := (buttons h)(i := c), nextCompId := Suc j\<rparr>))"

definition addStyleClass :: "ID \<Rightarrow> string \<Rightarrow> heap \<Rightarrow> heap" where
  "addStyleClass c cl h =
     h\<lparr>buttons := (buttons h)(c := (buttons h c)\<lparr>classes := AddClass cl (classes (buttons h c))\<rparr>)\<rparr>"

definition NewCheckBox :: "string \<Rightarrow> heap \<Rightarrow> ID \<times> heap" where
  "NewCheckBox t h =
     (case newStateButtonImpl t ''checkbox'' None h of
        (c, h1) \<Rightarrow> (c, addStyleClass c ''gwu-CheckBox'' h1))"

definition NewRadioButton :: "string \<Rightarrow> RadioGroup \<Rightarrow> heap \<Rightarrow> ID \<times> heap" where
  "NewRadioButton t grp h =
     (case newStateButtonImpl t ''radio'' (Some grp) h of
        (c, h1) \<Rightarrow> (c, addStyleClass c ''gwu-RadioButton'' h1))"

definition Name :: "RadioGroup \<Rightarrow> heap \<Rightarrow> string" where
  "Name r h = name (groups h r)"

definition Selected :: "RadioGroup \<Rightarrow> heap \<Rightarrow> ID option" where
  "Selected r h = selected (groups h r)"

definition PrevSelected :: "RadioGroup \<Rightarrow> heap \<Rightarrow> ID option" where
  "PrevSelected r h = prevSelected (groups h r)"

definition setSelected :: "RadioGroup \<Rightarrow> ID option \<Rightarrow> heap \<Rightarrow> heap" where
  "setSelected r sel h =
     h\<lparr>groups := (groups h)(r := (groups h r)\<lparr>prevSelected := selected (groups h r),
                                                selected := sel\<rparr>)\<rparr>"

definition State :: "ID \<Rightarrow> heap \<Rightarrow> bool" where
  "State c h = state (buttons h c)"

definition Group :: "ID \<Rightarrow> heap \<Rightarrow> RadioGroup option" where
  "Group c h = group (buttons h c)"

definition setStateProp :: "ID \<Rightarrow> bool \<Rightarrow> heap \<Rightarrow> heap" where
  "setStateProp c st h = h\<lparr>buttons := (buttons h)(c := (buttons h c)\<lparr>state := st\<rparr>)\<rparr>"

text \<open>
  \<^verbatim>\<open>stateButtonImpl.SetState\<close>, branch by branch. \<^verbatim>\<open>sel.Equals(c)\<close> compares the
  component ids.
\<close>

definition SetState :: "ID \<Rightarrow> bool \<Rightarrow> heap \<Rightarrow> heap" where
  "SetState c st h =
     (if State c h = st then h
      else
        let h1 =
          (case Group c h of
             None \<Rightarrow> h
           | Some r \<Rightarrow>
               (case Selected r h of
                  None \<Rightarrow> (if st then setSelected r (Some c) h else h)
                | Some sel \<Rightarrow>
                    (if st then
                       (if sel \<noteq> c then setSelected r (Some c) (setStateProp sel False h)
                        else h)
                     else setSelected r None h)))
        in setStateProp c st h1)"

text \<open>
  The inbound request. \<^verbatim>\<open>r.Form\<close> is a Go map from parameter names to the list of
  values sent under that name; \<^verbatim>\<open>r.FormValue(key)\<close> is the first value of the list,
  and the empty string when the key is absent or its list is empty.
  \<^verbatim>\<open>strconv.ParseBool\<close> accepts exactly the twelve spellings below and fails on
  every other string. The name of the value parameter (\<^verbatim>\<open>_PARAM_COMP_VALUE\<close>) is
  declared outside the sources and is a parameter \<open>pv\<close> of the model.
\<close>

type_synonym Form = "string \<Rightarrow> string list option"

definition FormValue :: "Form \<Rightarrow> string \<Rightarrow> string" where
  "FormValue form key = (case form key of None \<Rightarrow> [] | Some [] \<Rightarrow> [] | Some (v # vs) \<Rightarrow> v)"

definition ParseBool :: "string \<Rightarrow> bool option" where
  "ParseBool str =
     (if str \<in> set [''1'', ''t'', ''T'', ''TRUE'', ''true'', ''True''] then Some True
      else if str \<in> set [''0'', ''f'', ''F'', ''FALSE'', ''false'', ''False''] then Some False
      else None)"

definition preprocessEvent :: "string \<Rightarrow> Form \<Rightarrow> ID \<Rightarrow> heap \<Rightarrow> heap" where
  "preprocessEvent pv form c h =
     (let v = FormValue form pv
      in if length v = 0 then h
         else (case ParseBool v of Some b \<Rightarrow> SetState c b h | None \<Rightarrow> h))"

section \<open>SwitchButton\<close>

text \<open>
  The two sub-buttons are objects of the switch button's own: \<^verbatim>\<open>NewSwitchButton\<close>
  allocates them and hands the pointers to nobody, so they are held by value. The
  argument of \<open>NewSwitchButton\<close> is the value of the id generator at the call.
\<close>

record switchButtonImpl = compImpl +
  onButton :: buttonImpl
  offButton :: buttonImpl
  sw_state :: bool

definition sw_State :: "switchButtonImpl \<Rightarrow> bool" where
  "sw_State c = sw_state c"

definition sw_SetState :: "bool \<Rightarrow> switchButtonImpl \<Rightarrow> switchButtonImpl" where
  "sw_SetState st c =
     (if sw_state c = st then c
      else
        let c1 = c\<lparr>sw_state := st\<rparr>
        in if sw_state c1 then
             c1\<lparr>onButton := (onButton c1)\<lparr>classes :=
                    SetClass ''gwu-SwitchButton-On-Active'' (classes (onButton c1))\<rparr>,
                offButton := (offButton c1)\<lparr>classes :=
                    SetClass ''gwu-SwitchButton-Off-Inactive'' (classes (offButton c1))\<rparr>\<rparr>
           else
             c1\<lparr>onButton := (onButton c1)\<lparr>classes :=
                    SetClass ''gwu-SwitchButton-On-Inactive'' (classes (onButton c1))\<rparr>,
                offButton := (offButton c1)\<lparr>classes :=
                    SetClass ''gwu-SwitchButton-Off-Active'' (classes (offButton c1))\<rparr>\<rparr>)"

definition NewSwitchButton :: "ID \<Rightarrow> switchButtonImpl" where
  "NewSwitchButton n =
     (let on = newButtonImpl n ''ON'';
          off = newButtonImpl (n + 1) ''OFF'';
          c = \<lparr>comp_id = n + 2, classes = [], syncOnETypes = [],
               onButton = on, offButton = off, sw_state = True\<rparr>;
          c1 = c\<lparr>syncOnETypes := syncOnETypes c @ [ETYPE_CLICK]\<rparr>;
          c2 = c1\<lparr>classes := AddClass ''gwu-SwitchButton'' (classes c1)\<rparr>
      in sw_SetState False c2)"

definition sw_SetEnabled :: "bool \<Rightarrow> switchButtonImpl \<Rightarrow> switchButtonImpl" where
  "sw_SetEnabled e c =
     c\<lparr>onButton := (onButton c)\<lparr>enabled := e\<rparr>, offButton := (offButton c)\<lparr>enabled := e\<rparr>\<rparr>"

definition sw_SetOnOff :: "string \<Rightarrow> string \<Rightarrow> switchButtonImpl \<Rightarrow> switchButtonImpl" where
  "sw_SetOnOff on off c =
     c\<lparr>onButton := (onButton c)\<lparr>btn_text := on\<rparr>, offButton := (offButton c)\<lparr>btn_text := off\<rparr>\<rparr>"

definition sw_preprocessEvent :: "string \<Rightarrow> Form \<Rightarrow> switchButtonImpl \<Rightarrow> switchButtonImpl" where
  "sw_preprocessEvent pv form c =
     (let v = FormValue form pv
      in if length v = 0 then c
         else (case ParseBool v of Some b \<Rightarrow> sw_SetState b c | None \<Rightarrow> c))"

section \<open>TextBox and PasswBox\<close>

record textBoxImpl = compImpl +
  tb_text :: string
  tb_enabled :: bool
  isPassw :: bool
  rows :: int
  cols :: int

definition newTextBoxImpl :: "ID \<Rightarrow> string \<Rightarrow> bool \<Rightarrow> textBoxImpl" where
  "newTextBoxImpl n t pw =
     \<lparr>comp_id = n, classes = [], syncOnETypes = [ETYPE_CHANGE],
      tb_text = t, tb_enabled = True, isPassw = pw, rows = 1, cols = 20\<rparr>"

definition NewTextBox :: "ID \<Rightarrow> string \<Rightarrow> textBoxImpl" where
  "NewTextBox n t =
     (let c = newTextBoxImpl n t False in c\<lparr>classes := AddClass ''gwu-TextBox'' (classes c)\<rparr>)"

definition NewPasswBox :: "ID \<Rightarrow> string \<Rightarrow> textBoxImpl" where
  "NewPasswBox n t =
     (let c = newTextBoxImpl n t True in c\<lparr>classes := AddClass ''gwu-PasswBox'' (classes c)\<rparr>)"

definition tb_preprocessEvent :: "string \<Rightarrow> Form \<Rightarrow> textBoxImpl \<Rightarrow> textBoxImpl" where
  "tb_preprocessEvent pv form c =
     (let v = FormValue form pv
      in if length v > 0 then c\<lparr>tb_text := v\<rparr>
         else (case form pv of
                 None \<Rightarrow> c
               | Some values \<Rightarrow> (if length values > 0 then c\<lparr>tb_text := hd values\<rparr> else c)))"

section \<open>Panel, TabBar and TabPanel\<close>

text \<open>
  Modelled from the spec: the container (\<^verbatim>\<open>panelImpl\<close>, whose file is not among the
  sources): ``an ordered sequence of child components''; \<^verbatim>\<open>addChild\<close> appends,
  \<^verbatim>\<open>removeChild\<close> ``detaches by identity, returns whether found'', \<^verbatim>\<open>indexOf\<close>
  gives the position of a child and \<open>-1\<close> for a component that is not one, and
  \<^verbatim>\<open>childAt\<close> gives the child at a position and no component (\<^verbatim>\<open>nil\<close>) outside
  the sequence: an invalid structural request ``returns a failure indicator rather than
  raising''. Go's \<^verbatim>\<open>int\<close> is modelled by \<open>int\<close>: the only arithmetic on an index is
  one step up or down inside the length of a slice.
\<close>

fun CompIdx :: "ID list \<Rightarrow> ID \<Rightarrow> int" where
  "CompIdx [] c2 = - 1"
| "CompIdx (c3 # cs) c2 =
     (if c2 = c3 then 0 else (let i = CompIdx cs c2 in if i < 0 then - 1 else i + 1))"

definition CompAt :: "ID list \<Rightarrow> int \<Rightarrow> ID option" where
  "CompAt cs idx = (if idx < 0 \<or> idx \<ge> int (length cs) then None else Some (cs ! nat idx))"

definition CompsCount :: "ID list \<Rightarrow> int" where
  "CompsCount cs = int (length cs)"

definition panel_Add :: "ID list \<Rightarrow> ID \<Rightarrow> ID list" where
  "panel_Add cs c2 = cs @ [c2]"

definition panel_Remove :: "ID list \<Rightarrow> ID \<Rightarrow> bool \<times> ID list" where
  "panel_Remove cs c2 = (if CompIdx cs c2 < 0 then (False, cs) else (True, remove1 c2 cs))"

definition panel_Clear :: "ID list \<Rightarrow> ID list" where
  "panel_Clear cs = []"

text \<open>
  A method called on a \<^verbatim>\<open>nil\<close> interface value ends the call with a run-time
  panic. The writes made before the panic stay in the objects, and a caller that
  recovers (Go's HTTP server does, for every request) goes on with them: every operation
  returns its outcome, a panic or a result, together with the state it leaves.
\<close>

datatype panic = NilDereference

datatype TabBarPlacement =
  TB_PLACEMENT_TOP | TB_PLACEMENT_BOTTOM | TB_PLACEMENT_LEFT | TB_PLACEMENT_RIGHT

text \<open>
  \<^verbatim>\<open>tabPanelImpl\<close> with its \<^verbatim>\<open>tabBarImpl\<close>. \<open>comps\<close> is the embedded panel's
  sequence (the content components), \<open>tabBar_comps\<close> the tab bar's (the tab components).
  The tab and content components are objects of the caller's; the panel restyles the
  tabs, so \<open>compStyle\<close> is the store of their style bags. \<open>tabBar_parentIsTabPanel\<close> says
  whether the tab bar's parent is the tab panel, as \<^verbatim>\<open>NewTabPanel\<close> sets it.
  \<open>clickHandlers\<close> lists the click handlers that \<^verbatim>\<open>Add\<close> attaches, each as the tab it is
  attached to and the content its closure holds. Layout, alignment, attributes and cell
  formatters belong to the table renderer and are left out.
\<close>

record tabPanelImpl =
  tp_classes :: style
  comps :: "ID list"
  tabBar_classes :: style
  tabBar_comps :: "ID list"
  tabBar_parentIsTabPanel :: bool
  tabBarPlacement :: TabBarPlacement
  tp_selected :: int
  compStyle :: "ID \<Rightarrow> style"
  clickHandlers :: "(ID \<times> ID) list"

definition placementClass :: "TabBarPlacement \<Rightarrow> string" where
  "placementClass p =
     (case p of
        TB_PLACEMENT_TOP \<Rightarrow> ''gwu-TabBar-Top''
      | TB_PLACEMENT_BOTTOM \<Rightarrow> ''gwu-TabBar-Bottom''
      | TB_PLACEMENT_LEFT \<Rightarrow> ''gwu-TabBar-Left''
      | TB_PLACEMENT_RIGHT \<Rightarrow> ''gwu-TabBar-Right'')"

definition SetTabBarPlacement :: "TabBarPlacement \<Rightarrow> tabPanelImpl \<Rightarrow> tabPanelImpl" where
  "SetTabBarPlacement p c =
     (let c1 = c\<lparr>tabBar_classes := RemoveClass (placementClass (tabBarPlacement c)) (tabBar_classes c)\<rparr>;
          c2 = c1\<lparr>tabBarPlacement := p\<rparr>
      in c2\<lparr>tabBar_classes := AddClass (placementClass p) (tabBar_classes c2)\<rparr>)"

definition NewTabPanel :: tabPanelImpl where
  "NewTabPanel =
     (let c = \<lparr>tp_classes = [], comps = [], tabBar_classes = [], tabBar_comps = [],
               tabBar_parentIsTabPanel = False, tabBarPlacement = TB_PLACEMENT_TOP,
               tp_selected = - 1, compStyle = (\<lambda>_. []), clickHandlers = []\<rparr>;
          c1 = c\<lparr>tabBar_classes := AddClass ''gwu-TabBar'' (tabBar_classes c)\<rparr>;
          c2 = c1\<lparr>tabBar_parentIsTabPanel := True\<rparr>;
          c3 = SetTabBarPlacement TB_PLACEMENT_TOP c2
      in c3\<lparr>tp_classes := AddClass ''gwu-TabPanel'' (tp_classes c3)\<rparr>)"

definition tabPanel_Selected :: "tabPanelImpl \<Rightarrow> int" where
  "tabPanel_Selected c = tp_selected c"

text \<open>
  \<^verbatim>\<open>c.tabBarImpl.CompAt(idx).Style()\<close> followed by \<^verbatim>\<open>RemoveClass\<close> and
  \<^verbatim>\<open>AddClass\<close>: the two places of \<^verbatim>\<open>SetSelected\<close> that restyle a tab. Where
  \<^verbatim>\<open>CompAt\<close> gives \<^verbatim>\<open>nil\<close>, the call of \<^verbatim>\<open>Style\<close> panics.
\<close>

definition restyleTab ::
  "int \<Rightarrow> string \<Rightarrow> string \<Rightarrow> tabPanelImpl \<Rightarrow> (panic + unit) \<times> tabPanelImpl" where
  "restyleTab idx old new c =
     (case CompAt (tabBar_comps c) idx of
        None \<Rightarrow> (Inl NilDereference, c)
      | Some t \<Rightarrow>
          (Inr (), c\<lparr>compStyle := (compStyle c)(t := AddClass new (RemoveClass old (compStyle c t)))\<rparr>))"

definition tabPanel_SetSelected :: "int \<Rightarrow> tabPanelImpl \<Rightarrow> (panic + unit) \<times> tabPanelImpl" where
  "tabPanel_SetSelected idx c =
     (if idx \<ge> CompsCount (comps c) then (Inr (), c)
      else
        (case (if tp_selected c \<ge> 0
               then restyleTab (tp_selected c) ''gwu-TabBar-Selected'' ''gwu-TabBar-NotSelected'' c
               else (Inr (), c)) of
           (Inl e, c1) \<Rightarrow> (Inl e, c1)
         | (Inr u, c1) \<Rightarrow>
             (let c2 = c1\<lparr>tp_selected := idx\<rparr>
              in if tp_selected c2 \<ge> 0
                 then restyleTab idx ''gwu-TabBar-NotSelected'' ''gwu-TabBar-Selected'' c2
                 else (Inr (), c2))))"

text \<open>
  The part of \<^verbatim>\<open>tabPanelImpl.Remove\<close> after ``It's a content component'': \<open>i\<close> is the
  index of the content \<open>c2\<close>. A \<^verbatim>\<open>nil\<close> component is a child of no container, so
  removing it from the tab bar finds nothing.
\<close>

definition removeContent :: "int \<Rightarrow> ID \<Rightarrow> tabPanelImpl \<Rightarrow> (panic + bool) \<times> tabPanelImpl" where
  "removeContent i c2 c =
     (let c1 = (case CompAt (tabBar_comps c) i of
                  None \<Rightarrow> c
                | Some t \<Rightarrow> c\<lparr>tabBar_comps := snd (panel_Remove (tabBar_comps c) t)\<rparr>);
          c1 = c1\<lparr>comps := snd (panel_Remove (comps c1) c2)\<rparr>
      in if i < tp_selected c1 then (Inr True, c1\<lparr>tp_selected := tp_selected c1 - 1\<rparr>)
         else if i = tp_selected c1 then
           (case (if i < CompsCount (comps c1) then tabPanel_SetSelected i c1
                  else if i > 0 then tabPanel_SetSelected (i - 1) c1
                  else tabPanel_SetSelected (- 1) c1) of
              (Inl e, c3) \<Rightarrow> (Inl e, c3)
            | (Inr u, c3) \<Rightarrow> (Inr True, c3))
         else (Inr True, c1))"

text \<open>
  \<^verbatim>\<open>tabPanelImpl.Remove\<close>. A component that is no content component is looked up in
  the tab bar, and the method calls itself on the content at the tab's index; that
  content is a child of the panel, so the second call takes the other branch and the
  recursion ends. A \<^verbatim>\<open>nil\<close> content is a child of neither sequence, so the call on it
  returns \<^verbatim>\<open>false\<close>.
\<close>

function tabPanel_Remove :: "ID \<Rightarrow> tabPanelImpl \<Rightarrow> (panic + bool) \<times> tabPanelImpl" where
  "tabPanel_Remove c2 c =
     (let i = CompIdx (comps c) c2
      in if i < 0 then
           (let i = CompIdx (tabBar_comps c) c2
            in if i < 0 then (Inr False, c)
               else (case CompAt (comps c) i of
                       None \<Rightarrow> (Inr False, c)
                     | Some c3 \<Rightarrow> tabPanel_Remove c3 c))
         else removeContent i c2 c)"
  by pat_completeness auto
termination
proof -
  have neg: "CompIdx cs c < 0 \<longleftrightarrow> c \<notin> set cs" for cs c
    by (induction cs) (auto simp: Let_def)
  have "\<not> CompIdx cs c3 < 0" if "CompAt cs i = Some c3" for cs i c3
    using that by (auto simp: neg CompAt_def split: if_splits)
  then show ?thesis
    by (relation "measure (\<lambda>(c2, c). if CompIdx (comps c) c2 < 0 then 1 else 0)") auto
qed

declare tabPanel_Remove.simps [simp del]

text \<open>
  \<^verbatim>\<open>tabBarImpl.Remove\<close>: with the tab panel as parent it hands the content at the
  tab's index to the panel's \<^verbatim>\<open>Remove\<close>; with another parent it is the plain panel's
  \<^verbatim>\<open>Remove\<close>.
\<close>

definition tabBar_Remove :: "ID \<Rightarrow> tabPanelImpl \<Rightarrow> (panic + bool) \<times> tabPanelImpl" where
  "tabBar_Remove c2 c =
     (let i = CompIdx (tabBar_comps c) c2
      in if i < 0 then (Inr False, c)
         else if tabBar_parentIsTabPanel c then
           (case CompAt (comps c) i of
              None \<Rightarrow> (Inr False, c)
            | Some c3 \<Rightarrow> tabPanel_Remove c3 c)
         else (case panel_Remove (tabBar_comps c) c2 of
                 (found, cs) \<Rightarrow> (Inr found, c\<lparr>tabBar_comps := cs\<rparr>)))"

definition tabPanel_Add :: "ID \<Rightarrow> ID \<Rightarrow> tabPanelImpl \<Rightarrow> (panic + unit) \<times> tabPanelImpl" where
  "tabPanel_Add tab content c =
     (let c1 = c\<lparr>tabBar_comps := panel_Add (tabBar_comps c) tab\<rparr>;
          c2 = c1\<lparr>comps := panel_Add (comps c1) content\<rparr>;
          c3 = c2\<lparr>compStyle := (compStyle c2)
                  (tab := AddClass ''gwu-TabBar-NotSelected'' (compStyle c2 tab))\<rparr>
      in case (if CompsCount (comps c3) = 1 then tabPanel_SetSelected 0 c3 else (Inr (), c3)) of
           (Inl e, c4) \<Rightarrow> (Inl e, c4)
         | (Inr u, c4) \<Rightarrow> (Inr (), c4\<lparr>clickHandlers := clickHandlers c4 @ [(tab, content)]\<rparr>))"

definition tabPanel_Clear :: "tabPanelImpl \<Rightarrow> (panic + unit) \<times> tabPanelImpl" where
  "tabPanel_Clear c =
     (let c1 = c\<lparr>tabBar_comps := panel_Clear (tabBar_comps c)\<rparr>;
          c2 = c1\<lparr>comps := panel_Clear (comps c1)\<rparr>
      in tabPanel_SetSelected (- 1) c2)"

text \<open>The body of the click handler that \<^verbatim>\<open>Add\<close> attaches to a tab.\<close>

definition tabClick :: "ID \<Rightarrow> tabPanelImpl \<Rightarrow> (panic + unit) \<times> tabPanelImpl" where
  "tabClick content c = tabPanel_SetSelected (CompIdx (comps c) content) c"

section \<open>Sequences of calls\<close>

fun SetStates :: "(ID \<times> bool) list \<Rightarrow> heap \<Rightarrow> heap" where
  "SetStates [] h = h"
| "SetStates ((c, st) # cs) h = SetStates cs (SetState c st h)"

text \<open>
  What a radio group and its members keep between calls: a member's state is true exactly
  when the group's selected button is that member, and the selected button is a member.
\<close>

definition group_inv :: "RadioGroup \<Rightarrow> heap \<Rightarrow> bool" where
  "group_inv r h \<longleftrightarrow>
     (\<forall>b. Group b h = Some r \<longrightarrow> (State b h \<longleftrightarrow> Selected r h = Some b)) \<and>
     (\<forall>s. Selected r h = Some s \<longrightarrow> Group s h = Some r)"

text \<open>The public operations of a switch button that change it.\<close>

datatype sw_op =
  SwSetState bool | SwSetEnabled bool | SwSetOnOff string string | SwEvent string Form

fun sw_apply :: "sw_op \<Rightarrow> switchButtonImpl \<Rightarrow> switchButtonImpl" where
  "sw_apply (SwSetState st) c = sw_SetState st c"
| "sw_apply (SwSetEnabled e) c = sw_SetEnabled e c"
| "sw_apply (SwSetOnOff on off) c = sw_SetOnOff on off c"
| "sw_apply (SwEvent pv form) c = sw_preprocessEvent pv form c"

fun sw_run :: "sw_op list \<Rightarrow> switchButtonImpl \<Rightarrow> switchButtonImpl" where
  "sw_run [] c = c"
| "sw_run (x # xs) c = sw_run xs (sw_apply x c)"

definition sw_styled :: "switchButtonImpl \<Rightarrow> bool" where
  "sw_styled c \<longleftrightarrow>
     classes (onButton c) =
       [if sw_state c then ''gwu-SwitchButton-On-Active'' else ''gwu-SwitchButton-On-Inactive''] \<and>
     classes (offButton c) =
       [if sw_state c then ''gwu-SwitchButton-Off-Inactive'' else ''gwu-SwitchButton-Off-Active'']"

text \<open>
  A radio group \<^verbatim>\<open>g\<close> with two buttons \<^verbatim>\<open>A\<close> and \<^verbatim>\<open>B\<close>, and a check box, as the
  constructors make them: the group is at address 0, \<^verbatim>\<open>A\<close> has id 0 and \<^verbatim>\<open>B\<close> id 2.
\<close>

definition demo_heap :: heap where
  "demo_heap =
     snd (NewRadioButton ''B'' 0 (snd (NewRadioButton ''A'' 0 (snd (NewRadioGroup ''g'' empty_heap)))))"

definition checkbox_heap :: heap where
  "checkbox_heap = snd (NewCheckBox ''c'' empty_heap)"

definition demo_form :: "string \<Rightarrow> Form" where
  "demo_form v = Map.empty(''cv'' \<mapsto> [v])"

text \<open>
  The operations of a tab panel's public interface that change it. The next operation
  starts from the state the last one left, whether that one returned or panicked.
\<close>

datatype tp_op =
  OpAdd ID ID | OpRemove ID | OpClear | OpSetSelected int | OpTabBarRemove ID

fun tp_apply :: "tp_op \<Rightarrow> tabPanelImpl \<Rightarrow> tabPanelImpl" where
  "tp_apply (OpAdd tab content) c = snd (tabPanel_Add tab content c)"
| "tp_apply (OpRemove c2) c = snd (tabPanel_Remove c2 c)"
| "tp_apply OpClear c = snd (tabPanel_Clear c)"
| "tp_apply (OpSetSelected idx) c = snd (tabPanel_SetSelected idx c)"
| "tp_apply (OpTabBarRemove c2) c = snd (tabBar_Remove c2 c)"

fun tp_run :: "tp_op list \<Rightarrow> tabPanelImpl \<Rightarrow> tabPanelImpl" where
  "tp_run [] c = c"
| "tp_run (x # xs) c = tp_run xs (tp_apply x c)"





section \<open>Containers\<close>

lemma CompIdx_neg_iff: "CompIdx cs c < 0 \<longleftrightarrow> c \<notin> set cs"
  by (induction cs) (auto simp: Let_def)

lemma CompAt_in_set: "CompAt cs i = Some c \<Longrightarrow> c \<in> set cs"
  by (auto simp: CompAt_def split: if_splits)

lemma CompAt_Some_CompIdx: "CompAt cs i = Some c3 \<Longrightarrow> \<not> CompIdx cs c3 < 0"
  by (simp add: CompIdx_neg_iff CompAt_in_set)

section \<open>Radio groups\<close>

lemma Group_SetState: "Group b (SetState c st h) = Group b h"
  by (auto simp: SetState_def Group_def setStateProp_def setSelected_def Let_def
      split: option.splits)

lemma Group_SetStates: "Group b (SetStates cs h) = Group b h"
  by (induction cs arbitrary: h) (auto simp: Group_SetState)

lemma State_SetState_self: "State c (SetState c st h) = st"
  by (simp add: SetState_def State_def setStateProp_def Let_def)

lemma group_inv_SetState:
  assumes "group_inv r h" and "Group c h = Some r"
  shows "group_inv r (SetState c st h)"
  using assms unfolding group_inv_def
  by (auto simp: SetState_def Group_def State_def Selected_def setStateProp_def
      setSelected_def Let_def split: option.splits)

lemma group_inv_SetStates:
  "group_inv r h \<Longrightarrow> \<forall>(c, st) \<in> set cs. Group c h = Some r \<Longrightarrow> group_inv r (SetStates cs h)"
proof (induction cs arbitrary: h)
  case Nil
  then show ?case by simp
next
  case (Cons x cs)
  obtain c st where x: "x = (c, st)" by (cases x)
  from Cons.prems x have g: "Group c h = Some r" by simp
  have "group_inv r (SetState c st h)"
    using Cons.prems(1) g by (rule group_inv_SetState)
  moreover have "\<forall>(c', st') \<in> set cs. Group c' (SetState c st h) = Some r"
    using Cons.prems(2) by (auto simp: Group_SetState)
  ultimately show ?case using Cons.IH x by simp
qed

lemmas new_defs = NewRadioButton_def NewCheckBox_def NewRadioGroup_def empty_heap_def
  newStateButtonImpl_def addStyleClass_def AddClass_def Let_def Selected_def
  PrevSelected_def State_def Group_def

lemma demo_Selected: "Selected 0 demo_heap = None"
  by (simp add: demo_heap_def new_defs)

lemma demo_PrevSelected: "PrevSelected 0 demo_heap = None"
  by (simp add: demo_heap_def new_defs)

lemma demo_Group: "Group b demo_heap = (if b = 0 \<or> b = 2 then Some 0 else None)"
  by (simp add: demo_heap_def new_defs)

lemma demo_State: "\<not> State b demo_heap"
  by (simp add: demo_heap_def new_defs)

lemma checkbox_State: "\<not> State 0 checkbox_heap"
  by (simp add: checkbox_heap_def new_defs)

text \<open>
  C1. Take a radio group \<open>r\<close> with nothing selected and all of whose members are off, as
  \<^verbatim>\<open>NewRadioGroup\<close> and \<^verbatim>\<open>NewRadioButton\<close> leave them, and any sequence of
  \<^verbatim>\<open>SetState\<close> calls on members of \<open>r\<close>. After each call (after the first \<open>k\<close> calls, for
  every \<open>k\<close>) at most one member of \<open>r\<close> is on, and a member is on exactly when it is the
  button that the group's \<^verbatim>\<open>Selected\<close> returns. (\<^verbatim>\<open>SetState\<close> never changes the group
  of a button, so the members are the same before and after.)
\<close>

theorem radio_group_exclusive:
  assumes "Selected r h = None"
    and "\<forall>b. Group b h = Some r \<longrightarrow> \<not> State b h"
    and "\<forall>(c, st) \<in> set calls. Group c h = Some r"
    and "k \<le> length calls"
  shows "(\<forall>a b. Group a h = Some r \<and> Group b h = Some r \<and>
                 State a (SetStates (take k calls) h) \<and> State b (SetStates (take k calls) h)
                 \<longrightarrow> a = b) \<and>
         (\<forall>b. Group b h = Some r \<longrightarrow>
               (State b (SetStates (take k calls) h) \<longleftrightarrow>
                Selected r (SetStates (take k calls) h) = Some b))"
proof -
  let ?h' = "SetStates (take k calls) h"
  have i0: "group_inv r h"
    using assms(1,2) by (simp add: group_inv_def)
  have "\<forall>(c, st) \<in> set (take k calls). Group c h = Some r"
    using assms(3) by (auto dest: in_set_takeD)
  with i0 have inv: "group_inv r ?h'"
    by (rule group_inv_SetStates)
  have sel: "\<forall>b. Group b h = Some r \<longrightarrow> (State b ?h' \<longleftrightarrow> Selected r ?h' = Some b)"
    using inv by (simp add: group_inv_def Group_SetStates)
  then show ?thesis by auto
qed

theorem radio_group_exclusive_witness:
  "State 2 (SetStates [(0, True), (2, True)] demo_heap) \<and>
   \<not> State 0 (SetStates [(0, True), (2, True)] demo_heap) \<and>
   Selected 0 (SetStates [(0, True), (2, True)] demo_heap) = Some 2"
proof -
  have f1: "Selected 0 demo_heap = None"
    by (rule demo_Selected)
  have f2: "\<forall>b. Group b demo_heap = Some 0 \<longrightarrow> \<not> State b demo_heap"
    by (simp add: demo_State)
  have f3: "\<forall>(c, st) \<in> set [(0, True), (2, True)]. Group c demo_heap = Some 0"
    by (simp add: demo_Group)
  have k: "2 \<le> length [(0::nat, True), (2, True)]"
    by simp
  have tk: "take 2 [(0::nat, True), (2, True)] = [(0, True), (2, True)]"
    by simp
  have s2: "State 2 (SetStates [(0, True), (2, True)] demo_heap)"
    by (simp add: State_SetState_self)
  have sel: "\<forall>b. Group b demo_heap = Some 0 \<longrightarrow>
               (State b (SetStates [(0, True), (2, True)] demo_heap) \<longleftrightarrow>
                Selected 0 (SetStates [(0, True), (2, True)] demo_heap) = Some b)"
    using radio_group_exclusive [OF f1 f2 f3 k] unfolding tk by (rule conjunct2)
  from sel s2 have a: "Selected 0 (SetStates [(0, True), (2, True)] demo_heap) = Some 2"
    by (simp add: demo_Group)
  from sel a have b: "\<not> State 0 (SetStates [(0, True), (2, True)] demo_heap)"
    by (simp add: demo_Group)
  from s2 a b show ?thesis by blast
qed

text \<open>
  C6. Whenever a \<^verbatim>\<open>SetState\<close> call changes what the group's \<^verbatim>\<open>Selected\<close> returns,
  \<^verbatim>\<open>PrevSelected\<close> returns afterwards what \<^verbatim>\<open>Selected\<close> returned before the call; a
  call that leaves the selection as it was leaves the previous selection as it was: the
  group holds one slot of history, overwritten on every change of the selection and
  only then.
\<close>

theorem prev_selected_one_slot:
  "(Selected r (SetState c st h) \<noteq> Selected r h \<longrightarrow>
      PrevSelected r (SetState c st h) = Selected r h) \<and>
   (Selected r (SetState c st h) = Selected r h \<longrightarrow>
      PrevSelected r (SetState c st h) = PrevSelected r h)"
  by (auto simp: SetState_def Group_def setStateProp_def setSelected_def Let_def
      Selected_def PrevSelected_def split: option.splits if_splits)

lemmas eval_defs = demo_heap_def checkbox_heap_def new_defs SetState_def setSelected_def
  setStateProp_def

theorem prev_selected_one_slot_witness:
  "Selected 0 (SetState 0 True demo_heap) = Some 0 \<and>
   PrevSelected 0 (SetState 0 True demo_heap) = None \<and>
   Selected 0 (SetState 2 True (SetState 0 True demo_heap)) = Some 2 \<and>
   PrevSelected 0 (SetState 2 True (SetState 0 True demo_heap)) = Some 0"
proof -
  have a: "Selected 0 (SetState 0 True demo_heap) = Some 0"
    by (simp add: eval_defs)
  have b: "Selected 0 (SetState 2 True (SetState 0 True demo_heap)) = Some 2"
    by (simp add: eval_defs)
  have c: "PrevSelected 0 (SetState 0 True demo_heap) = None"
    using prev_selected_one_slot [of 0 0 True demo_heap] a by (simp add: demo_Selected)
  have d: "PrevSelected 0 (SetState 2 True (SetState 0 True demo_heap)) = Some 0"
    using prev_selected_one_slot [of 0 2 True "SetState 0 True demo_heap"] a b by simp
  from a b c d show ?thesis by simp
qed

section \<open>Setting a button to the state it has\<close>

lemma sw_State_SetState: "sw_State (sw_SetState st c) = st"
  by (simp add: sw_SetState_def sw_State_def Let_def)

text \<open>
  C9. \<^verbatim>\<open>SetState(s)\<close> on a check box or radio button whose state is \<open>s\<close> returns
  the whole store as it was: the button, every other button, the slots of every group
  and every style class; \<^verbatim>\<open>SetState(s)\<close> on a switch button whose state is \<open>s\<close>
  returns the switch button with its two sub-buttons as it was. Hence a second call with
  the same argument changes nothing.
\<close>

theorem SetState_same_state_noop:
  "(State c h = s \<longrightarrow> SetState c s h = h) \<and>
   (sw_State sw = s \<longrightarrow> sw_SetState s sw = sw) \<and>
   SetState c s (SetState c s h) = SetState c s h \<and>
   sw_SetState s (sw_SetState s sw) = sw_SetState s sw"
proof -
  have a: "State c h = s \<longrightarrow> SetState c s h = h" for c s h
    by (simp add: SetState_def)
  have b: "sw_State sw = s \<longrightarrow> sw_SetState s sw = sw" for s sw
    by (simp add: sw_SetState_def sw_State_def)
  have "SetState c s (SetState c s h) = SetState c s h"
    using a [of c "SetState c s h" s] by (simp add: State_SetState_self)
  moreover have "sw_SetState s (sw_SetState s sw) = sw_SetState s sw"
    using b [of "sw_SetState s sw" s] by (simp add: sw_State_SetState)
  ultimately show ?thesis using a b by blast
qed

theorem SetState_same_state_noop_witness:
  "SetState 0 False checkbox_heap = checkbox_heap \<and>
   SetState 2 False demo_heap = demo_heap \<and>
   sw_SetState False (NewSwitchButton 0) = NewSwitchButton 0"
proof -
  have "sw_State (NewSwitchButton 0) = False"
    by (simp add: NewSwitchButton_def sw_State_SetState)
  then show ?thesis
    using SetState_same_state_noop [of 0 checkbox_heap False "NewSwitchButton 0"]
      SetState_same_state_noop [of 2 demo_heap False "NewSwitchButton 0"]
    by (simp add: checkbox_State demo_State)
qed

section \<open>Inbound values\<close>

lemma ParseBool_empty: "ParseBool [] = None"
  by (simp add: ParseBool_def)

text \<open>
  C7. The preprocessing step of a check box or radio button and that of a switch button
  return the store, resp. the switch button, unchanged when the value parameter is
  absent, has no value, has the empty string as first value, or has a first value that
  \<^verbatim>\<open>ParseBool\<close> rejects; when \<^verbatim>\<open>ParseBool\<close> reads the first value as \<open>b\<close>, the
  result is that of \<^verbatim>\<open>SetState(b)\<close>. The step has no failure to report: it is a total
  function to the new state.
\<close>

theorem preprocessEvent_lenient:
  "((form pv = None \<or> form pv = Some [] \<or> FormValue form pv = [] \<or>
     ParseBool (FormValue form pv) = None) \<longrightarrow>
      preprocessEvent pv form c h = h \<and> sw_preprocessEvent pv form sw = sw) \<and>
   (ParseBool (FormValue form pv) = Some b \<longrightarrow>
      preprocessEvent pv form c h = SetState c b h \<and>
      sw_preprocessEvent pv form sw = sw_SetState b sw)"
proof -
  have "FormValue form pv = []" if "form pv = None \<or> form pv = Some []"
    using that by (auto simp: FormValue_def)
  moreover have "preprocessEvent pv form c h = h \<and> sw_preprocessEvent pv form sw = sw"
    if "FormValue form pv = [] \<or> ParseBool (FormValue form pv) = None"
    using that by (auto simp: preprocessEvent_def sw_preprocessEvent_def Let_def)
  moreover have "preprocessEvent pv form c h = SetState c b h \<and>
      sw_preprocessEvent pv form sw = sw_SetState b sw"
    if "ParseBool (FormValue form pv) = Some b"
    using that by (auto simp: preprocessEvent_def sw_preprocessEvent_def Let_def ParseBool_empty)
  ultimately show ?thesis by blast
qed

theorem preprocessEvent_lenient_witness:
  "preprocessEvent ''cv'' (demo_form ''maybe'') 0 demo_heap = demo_heap \<and>
   preprocessEvent ''cv'' Map.empty 0 demo_heap = demo_heap \<and>
   preprocessEvent ''cv'' (demo_form ''true'') 0 demo_heap = SetState 0 True demo_heap \<and>
   sw_preprocessEvent ''cv'' (demo_form ''1'') (NewSwitchButton 0) =
     sw_SetState True (NewSwitchButton 0)"
proof -
  have "ParseBool (FormValue (demo_form ''maybe'') ''cv'') = None"
    and "ParseBool (FormValue (demo_form ''true'') ''cv'') = Some True"
    and "ParseBool (FormValue (demo_form ''1'') ''cv'') = Some True"
    by (simp_all add: demo_form_def FormValue_def ParseBool_def)
  then show ?thesis
    using preprocessEvent_lenient [of "demo_form ''maybe''" "''cv''" 0 demo_heap "NewSwitchButton 0" True]
      preprocessEvent_lenient [of Map.empty "''cv''" 0 demo_heap "NewSwitchButton 0" True]
      preprocessEvent_lenient [of "demo_form ''true''" "''cv''" 0 demo_heap "NewSwitchButton 0" True]
      preprocessEvent_lenient [of "demo_form ''1''" "''cv''" 0 demo_heap "NewSwitchButton 0" True]
    by simp
qed

text \<open>
  C8. The preprocessing step of a text box or password box sets the text to the first
  value sent under the value parameter whenever the parameter is present with a value,
  the empty string included, and changes nothing else; when the parameter is absent the
  text box is returned as it was.
\<close>

theorem textbox_preprocessEvent:
  "(form pv = Some (v # vs) \<longrightarrow> tb_preprocessEvent pv form c = c\<lparr>tb_text := v\<rparr>) \<and>
   (form pv = None \<longrightarrow> tb_preprocessEvent pv form c = c)"
  by (auto simp: tb_preprocessEvent_def FormValue_def Let_def)

theorem textbox_preprocessEvent_witness:
  "tb_text (tb_preprocessEvent ''cv'' (demo_form []) (NewTextBox 0 ''abc'')) = [] \<and>
   tb_text (tb_preprocessEvent ''cv'' (demo_form ''xy'') (NewPasswBox 0 ''abc'')) = ''xy'' \<and>
   tb_text (tb_preprocessEvent ''cv'' Map.empty (NewTextBox 0 ''abc'')) = ''abc''"
proof -
  have "tb_text (NewTextBox 0 ''abc'') = ''abc''"
    by (simp add: NewTextBox_def newTextBoxImpl_def Let_def)
  then show ?thesis
    using textbox_preprocessEvent [of "demo_form []" "''cv''" "[]" "[]" "NewTextBox 0 ''abc''"]
      textbox_preprocessEvent [of "demo_form ''xy''" "''cv''" "''xy''" "[]" "NewPasswBox 0 ''abc''"]
      textbox_preprocessEvent [of Map.empty "''cv''" "[]" "[]" "NewTextBox 0 ''abc''"]
    by (simp add: demo_form_def)
qed

section \<open>Switch button styling\<close>

lemma sw_styled_SetState: "sw_styled c \<Longrightarrow> sw_styled (sw_SetState st c)"
  by (simp add: sw_styled_def sw_SetState_def SetClass_def Let_def)

lemma sw_styled_New: "sw_styled (NewSwitchButton n)"
  by (simp add: sw_styled_def NewSwitchButton_def sw_SetState_def SetClass_def Let_def)

lemma sw_styled_apply: "sw_styled c \<Longrightarrow> sw_styled (sw_apply x c)"
  by (cases x)
     (auto simp: sw_styled_SetState sw_preprocessEvent_def Let_def split: option.splits,
      auto simp: sw_styled_def sw_SetEnabled_def sw_SetOnOff_def)

lemma sw_styled_run: "sw_styled c \<Longrightarrow> sw_styled (sw_run xs c)"
  by (induction xs arbitrary: c) (auto simp: sw_styled_apply)

text \<open>
  C5. After \<^verbatim>\<open>NewSwitchButton\<close> and any sequence of the switch button's public
  operations (\<^verbatim>\<open>SetState\<close>, \<^verbatim>\<open>SetEnabled\<close>, \<^verbatim>\<open>SetOnOff\<close>, the preprocessing of an
  event), the style classes of the two sub-buttons are a function of the state: with state
  true the on sub-button has the class \<^verbatim>\<open>gwu-SwitchButton-On-Active\<close> and the off
  sub-button \<^verbatim>\<open>gwu-SwitchButton-Off-Inactive\<close>, with state false they have
  \<^verbatim>\<open>gwu-SwitchButton-On-Inactive\<close> and \<^verbatim>\<open>gwu-SwitchButton-Off-Active\<close>, and in both
  cases that class is the only one. A second \<^verbatim>\<open>SetState\<close> with the same argument
  returns the switch button unchanged.
\<close>

theorem switch_button_styles:
  "(sw_State (sw_run ops (NewSwitchButton n)) \<longrightarrow>
      HasClass (classes (onButton (sw_run ops (NewSwitchButton n)))) ''gwu-SwitchButton-On-Active'' \<and>
      HasClass (classes (offButton (sw_run ops (NewSwitchButton n)))) ''gwu-SwitchButton-Off-Inactive'') \<and>
   (\<not> sw_State (sw_run ops (NewSwitchButton n)) \<longrightarrow>
      HasClass (classes (onButton (sw_run ops (NewSwitchButton n)))) ''gwu-SwitchButton-On-Inactive'' \<and>
      HasClass (classes (offButton (sw_run ops (NewSwitchButton n)))) ''gwu-SwitchButton-Off-Active'') \<and>
   sw_styled (sw_run ops (NewSwitchButton n)) \<and>
   sw_SetState st (sw_SetState st (sw_run ops (NewSwitchButton n))) =
     sw_SetState st (sw_run ops (NewSwitchButton n))"
proof -
  let ?c = "sw_run ops (NewSwitchButton n)"
  have s: "sw_styled ?c"
    by (simp add: sw_styled_run sw_styled_New)
  have "sw_SetState st (sw_SetState st ?c) = sw_SetState st ?c"
    by (simp add: sw_SetState_def Let_def)
  with s show ?thesis
    by (simp add: sw_styled_def sw_State_def HasClass_def)
qed

theorem switch_button_styles_witness:
  "sw_State (sw_run [SwSetState True, SwSetState True] (NewSwitchButton 0)) \<and>
   HasClass (classes (onButton (sw_run [SwSetState True, SwSetState True] (NewSwitchButton 0))))
     ''gwu-SwitchButton-On-Active'' \<and>
   HasClass (classes (offButton (sw_run [SwSetState True, SwSetState True] (NewSwitchButton 0))))
     ''gwu-SwitchButton-Off-Inactive'' \<and>
   \<not> sw_State (sw_run [] (NewSwitchButton 0)) \<and>
   HasClass (classes (onButton (sw_run [] (NewSwitchButton 0)))) ''gwu-SwitchButton-On-Inactive'' \<and>
   HasClass (classes (offButton (sw_run [] (NewSwitchButton 0)))) ''gwu-SwitchButton-Off-Active''"
proof -
  have a: "sw_State (sw_run [SwSetState True, SwSetState True] (NewSwitchButton 0))"
    by (simp add: sw_State_SetState)
  have b: "\<not> sw_State (sw_run [] (NewSwitchButton 0))"
    by (simp add: NewSwitchButton_def sw_State_SetState)
  show ?thesis
    using a b switch_button_styles [of "[SwSetState True, SwSetState True]" 0 True]
      switch_button_styles [of "[]" 0 True]
    by blast
qed

section \<open>Tab panels: the two sequences\<close>

lemma snd_panel_Remove: "snd (panel_Remove cs x) = remove1 x cs"
  by (simp add: panel_Remove_def CompIdx_neg_iff remove1_idem)




lemma CompAt_Cons_Suc: "0 \<le> i \<Longrightarrow> CompAt (a # cs) (i + 1) = CompAt cs i"
  by (auto simp: CompAt_def nat_add_distrib)

lemma CompIdx_ge: "- 1 \<le> CompIdx cs x"
  by (induction cs) (auto simp: Let_def)






























lemmas tp_eval = tabPanel_Remove.simps removeContent_def tabPanel_Add_def tabBar_Remove_def
  NewTabPanel_def SetTabBarPlacement_def tabPanel_SetSelected_def restyleTab_def CompAt_def
  CompsCount_def panel_Add_def panel_Remove_def AddClass_def RemoveClass_def
  placementClass_def Let_def tabPanel_Selected_def



section \<open>Tab panels: the selected index\<close>

lemma SetSelected_out_of_range:
  "CompsCount (comps c) \<le> idx \<Longrightarrow> tabPanel_SetSelected idx c = (Inr (), c)"
  by (simp add: tabPanel_SetSelected_def)

lemma SetSelected_negative:
  "idx < 0 \<Longrightarrow> tp_selected c < 0 \<Longrightarrow>
   tabPanel_SetSelected idx c = (Inr (), c\<lparr>tp_selected := idx\<rparr>)"
  by (simp add: tabPanel_SetSelected_def CompsCount_def Let_def)

lemma SetSelected_stale_panics:
  assumes "idx < CompsCount (comps c)" and "int (length (tabBar_comps c)) \<le> tp_selected c"
  shows "tabPanel_SetSelected idx c = (Inl NilDereference, c)"
  using assms by (simp add: tabPanel_SetSelected_def restyleTab_def CompAt_def)

lemma SetSelected_in_range:
  assumes "0 \<le> idx" and "idx < CompsCount (comps c)"
    and "length (tabBar_comps c) = length (comps c)"
    and "tp_selected c < CompsCount (comps c)"
  shows "fst (tabPanel_SetSelected idx c) = Inr () \<and>
         tp_selected (snd (tabPanel_SetSelected idx c)) = idx"
  using assms
  by (simp add: tabPanel_SetSelected_def restyleTab_def CompAt_def CompsCount_def Let_def)

lemma tabBar_Remove_absent:
  "c2 \<notin> set (tabBar_comps c) \<Longrightarrow> tabBar_Remove c2 c = (Inr False, c)"
  by (simp add: tabBar_Remove_def Let_def CompIdx_neg_iff)

lemma tabBar_Remove_delegates:
  assumes "tabBar_parentIsTabPanel c" and "t \<in> set (tabBar_comps c)"
    and "CompAt (comps c) (CompIdx (tabBar_comps c) t) = Some x"
  shows "tabBar_Remove t c = tabPanel_Remove x c"
  using assms by (simp add: tabBar_Remove_def Let_def CompIdx_neg_iff)

lemma Remove_content:
  "x \<in> set (comps c) \<Longrightarrow> tabPanel_Remove x c = removeContent (CompIdx (comps c) x) x c"
  by (simp add: tabPanel_Remove.simps [of x c] Let_def CompIdx_neg_iff)

lemma Remove_absent:
  "x \<notin> set (comps c) \<Longrightarrow> x \<notin> set (tabBar_comps c) \<Longrightarrow> tabPanel_Remove x c = (Inr False, c)"
  by (simp add: tabPanel_Remove.simps [of x c] Let_def CompIdx_neg_iff)

lemma CompIdx_less_length: "CompIdx cs x < int (length cs)"
  by (induction cs) (auto simp: Let_def)

lemma CompAt_CompIdx: "x \<in> set cs \<Longrightarrow> CompAt cs (CompIdx cs x) = Some x"
proof (induction cs)
  case Nil
  then show ?case by simp
next
  case (Cons a cs)
  show ?case
  proof (cases "x = a")
    case True
    then show ?thesis by (simp add: CompAt_def)
  next
    case False
    with Cons.prems have x: "x \<in> set cs" by simp
    then have "0 \<le> CompIdx cs x"
      using CompIdx_neg_iff [of cs x] by simp
    with False x Cons.IH show ?thesis
      by (simp add: Let_def CompAt_Cons_Suc)
  qed
qed

text \<open>
  What \<^verbatim>\<open>Remove\<close> of the content at index \<open>i\<close> does to the selected index. A pair
  before the selected one: the index goes down by one. A pair after it: the index stays.
  The selected pair with a pair after it: the index stays and now denotes the following
  pair. The selected pair when it is the last: the call panics with the index unchanged.
\<close>

lemma Remove_before_selected:
  assumes "x \<in> set (comps c)" and "CompIdx (comps c) x < tp_selected c"
  shows "fst (tabPanel_Remove x c) = Inr True \<and>
         tp_selected (snd (tabPanel_Remove x c)) = tp_selected c - 1"
  using assms by (simp add: Remove_content removeContent_def Let_def split: option.splits)

lemma Remove_after_selected:
  assumes "x \<in> set (comps c)" and "tp_selected c < CompIdx (comps c) x"
  shows "fst (tabPanel_Remove x c) = Inr True \<and>
         tp_selected (snd (tabPanel_Remove x c)) = tp_selected c"
  using assms by (simp add: Remove_content removeContent_def Let_def split: option.splits)

lemma removeContent_lengths:
  assumes "x \<in> set (comps c)" and "length (tabBar_comps c) = length (comps c)"
  shows "\<exists>c1. comps c1 = remove1 x (comps c) \<and> length (tabBar_comps c1) = length (comps c) - 1 \<and>
           length (comps c1) = length (comps c) - 1 \<and> tp_selected c1 = tp_selected c \<and>
           removeContent (CompIdx (comps c) x) x c =
             (if CompIdx (comps c) x < tp_selected c1
              then (Inr True, c1\<lparr>tp_selected := tp_selected c1 - 1\<rparr>)
              else if CompIdx (comps c) x = tp_selected c1 then
                (case (if CompIdx (comps c) x < CompsCount (comps c1)
                       then tabPanel_SetSelected (CompIdx (comps c) x) c1
                       else if CompIdx (comps c) x > 0
                       then tabPanel_SetSelected (CompIdx (comps c) x - 1) c1
                       else tabPanel_SetSelected (- 1) c1) of
                   (Inl e, c3) \<Rightarrow> (Inl e, c3)
                 | (Inr u, c3) \<Rightarrow> (Inr True, c3))
              else (Inr True, c1))"
proof -
  let ?i = "CompIdx (comps c) x"
  have i: "0 \<le> ?i" "?i < int (length (comps c))"
    using assms(1) CompIdx_neg_iff [of "comps c" x] CompIdx_less_length [of "comps c" x]
    by simp_all
  then obtain t where t: "CompAt (tabBar_comps c) ?i = Some t" "t \<in> set (tabBar_comps c)"
    using assms(2) by (auto simp: CompAt_def)
  define c1 where "c1 = c\<lparr>tabBar_comps := remove1 t (tabBar_comps c),
      comps := remove1 x (comps c)\<rparr>"
  have "length (tabBar_comps c1) = length (comps c) - 1"
    using t(2) assms(2) by (simp add: c1_def length_remove1)
  moreover have "length (comps c1) = length (comps c) - 1"
    using assms(1) by (simp add: c1_def length_remove1)
  moreover have "removeContent ?i x c =
      (if ?i < tp_selected c1 then (Inr True, c1\<lparr>tp_selected := tp_selected c1 - 1\<rparr>)
       else if ?i = tp_selected c1 then
         (case (if ?i < CompsCount (comps c1) then tabPanel_SetSelected ?i c1
                else if ?i > 0 then tabPanel_SetSelected (?i - 1) c1
                else tabPanel_SetSelected (- 1) c1) of
            (Inl e, c3) \<Rightarrow> (Inl e, c3)
          | (Inr u, c3) \<Rightarrow> (Inr True, c3))
       else (Inr True, c1))"
    unfolding removeContent_def Let_def t(1) by (simp add: snd_panel_Remove c1_def)
  ultimately show ?thesis
    by (intro exI [of _ c1]) (simp add: c1_def)
qed

lemma Remove_selected_with_next:
  assumes "x \<in> set (comps c)" and "CompIdx (comps c) x = tp_selected c"
    and "length (tabBar_comps c) = length (comps c)"
    and "tp_selected c + 1 < int (length (comps c))"
  shows "fst (tabPanel_Remove x c) = Inr True \<and>
         tp_selected (snd (tabPanel_Remove x c)) = tp_selected c"
proof -
  obtain c1 where c1: "length (tabBar_comps c1) = length (comps c) - 1"
      "length (comps c1) = length (comps c) - 1" "tp_selected c1 = tp_selected c"
    and r: "removeContent (CompIdx (comps c) x) x c =
      (if CompIdx (comps c) x < tp_selected c1
       then (Inr True, c1\<lparr>tp_selected := tp_selected c1 - 1\<rparr>)
       else if CompIdx (comps c) x = tp_selected c1 then
         (case (if CompIdx (comps c) x < CompsCount (comps c1)
                then tabPanel_SetSelected (CompIdx (comps c) x) c1
                else if CompIdx (comps c) x > 0
                then tabPanel_SetSelected (CompIdx (comps c) x - 1) c1
                else tabPanel_SetSelected (- 1) c1) of
            (Inl e, c3) \<Rightarrow> (Inl e, c3)
          | (Inr u, c3) \<Rightarrow> (Inr True, c3))
       else (Inr True, c1))"
    using removeContent_lengths [OF assms(1,3)] by blast
  have i: "0 \<le> tp_selected c"
    using assms(1,2) CompIdx_neg_iff [of "comps c" x] by simp
  have lt: "tp_selected c < CompsCount (comps c1)"
    using assms(4) c1(2) by (simp add: CompsCount_def)
  have s: "fst (tabPanel_SetSelected (tp_selected c) c1) = Inr () \<and>
      tp_selected (snd (tabPanel_SetSelected (tp_selected c) c1)) = tp_selected c"
    using SetSelected_in_range [of "tp_selected c" c1] i lt c1 by simp
  obtain u c3 where u: "tabPanel_SetSelected (tp_selected c) c1 = (Inr u, c3)"
    using s by (cases "tabPanel_SetSelected (tp_selected c) c1") auto
  show ?thesis
    unfolding Remove_content [OF assms(1), unfolded assms(2)] r [unfolded assms(2) c1(3)]
    using s u lt by simp
qed

lemma Remove_selected_last_panics:
  assumes "x \<in> set (comps c)" and "CompIdx (comps c) x = tp_selected c"
    and "length (tabBar_comps c) = length (comps c)"
    and "tp_selected c + 1 = int (length (comps c))"
  shows "fst (tabPanel_Remove x c) = Inl NilDereference \<and>
         tp_selected (snd (tabPanel_Remove x c)) = tp_selected c"
proof -
  obtain c1 where c1: "length (tabBar_comps c1) = length (comps c) - 1"
      "length (comps c1) = length (comps c) - 1" "tp_selected c1 = tp_selected c"
    and r: "removeContent (CompIdx (comps c) x) x c =
      (if CompIdx (comps c) x < tp_selected c1
       then (Inr True, c1\<lparr>tp_selected := tp_selected c1 - 1\<rparr>)
       else if CompIdx (comps c) x = tp_selected c1 then
         (case (if CompIdx (comps c) x < CompsCount (comps c1)
                then tabPanel_SetSelected (CompIdx (comps c) x) c1
                else if CompIdx (comps c) x > 0
                then tabPanel_SetSelected (CompIdx (comps c) x - 1) c1
                else tabPanel_SetSelected (- 1) c1) of
            (Inl e, c3) \<Rightarrow> (Inl e, c3)
          | (Inr u, c3) \<Rightarrow> (Inr True, c3))
       else (Inr True, c1))"
    using removeContent_lengths [OF assms(1,3)] by blast
  have i: "0 \<le> tp_selected c"
    using assms(1,2) CompIdx_neg_iff [of "comps c" x] by simp
  have "int (length (comps c) - 1) = tp_selected c"
    using assms(4) i by linarith
  then have n: "CompsCount (comps c1) = tp_selected c"
    "int (length (tabBar_comps c1)) = tp_selected c"
    using c1(1,2) by (simp_all add: CompsCount_def)
  have p: "idx < tp_selected c \<Longrightarrow> tabPanel_SetSelected idx c1 = (Inl NilDereference, c1)" for idx
    using SetSelected_stale_panics [of idx c1] n c1(3) by simp
  show ?thesis
    unfolding Remove_content [OF assms(1), unfolded assms(2)] r [unfolded assms(2) c1(3)]
    using i n p [of "tp_selected c - 1"] p [of "- 1"] c1(3) by simp
qed

text \<open>
  C2. Removing the selected tab when it is the last one does not select the new last tab
  (or no tab): \<^verbatim>\<open>Remove\<close> has taken the pair out of both sequences when it calls
  \<^verbatim>\<open>SetSelected\<close>, whose first step restyles the tab at the old selected index, which
  the tab bar no longer has. With one pair, \<^verbatim>\<open>Remove\<close> of the content panics and the
  selected index stays 0; with two pairs and the second selected, it panics and the
  selected index stays 1, the length of the sequences. \<open>Remove_selected_last_panics\<close>
  above is the general statement; \<open>Remove_before_selected\<close>, \<open>Remove_after_selected\<close>
  and \<open>Remove_selected_with_next\<close> are the cases in which the index is adjusted as
  the comments of \<^verbatim>\<open>Remove\<close> say.
\<close>

theorem remove_selected_last_tab_panics:
  "tabPanel_Selected (tp_run [OpAdd 10 11] NewTabPanel) = 0 \<and>
   fst (tabPanel_Remove 11 (tp_run [OpAdd 10 11] NewTabPanel)) = Inl NilDereference \<and>
   tabPanel_Selected (snd (tabPanel_Remove 11 (tp_run [OpAdd 10 11] NewTabPanel))) = 0 \<and>
   comps (snd (tabPanel_Remove 11 (tp_run [OpAdd 10 11] NewTabPanel))) = [] \<and>
   tabPanel_Selected (tp_run [OpAdd 10 11, OpAdd 20 21, OpSetSelected 1] NewTabPanel) = 1 \<and>
   fst (tabPanel_Remove 21 (tp_run [OpAdd 10 11, OpAdd 20 21, OpSetSelected 1] NewTabPanel)) =
     Inl NilDereference \<and>
   tabPanel_Selected
     (snd (tabPanel_Remove 21 (tp_run [OpAdd 10 11, OpAdd 20 21, OpSetSelected 1] NewTabPanel))) = 1 \<and>
   comps (snd (tabPanel_Remove 21 (tp_run [OpAdd 10 11, OpAdd 20 21, OpSetSelected 1] NewTabPanel))) =
     [11]"
  by (simp add: tp_eval)

text \<open>
  C3. \<^verbatim>\<open>SetSelected\<close> stores a negative index as it is given: on a new tab panel
  \<^verbatim>\<open>SetSelected(-2)\<close> returns and \<^verbatim>\<open>Selected\<close> is \<open>-2\<close> afterwards, which is neither
  \<open>-1\<close> nor an index of the content sequence (\<open>SetSelected_negative\<close> is the general
  statement). An index at or beyond the number of content components leaves the panel
  as it is (\<open>SetSelected_out_of_range\<close>).
\<close>

theorem set_selected_keeps_negative_index:
  "fst (tabPanel_SetSelected (- 2) NewTabPanel) = Inr () \<and>
   tabPanel_Selected (snd (tabPanel_SetSelected (- 2) NewTabPanel)) = - 2"
  by (simp add: tp_eval)

text \<open>
  C10. \<^verbatim>\<open>Remove\<close> on the tab bar hands the content of the tab to the panel's
  \<^verbatim>\<open>Remove\<close> and so panics where that does: with one pair, removing the tab through
  the tab bar takes the pair out of both sequences and then panics instead of returning
  \<^verbatim>\<open>true\<close>, and the selected index stays 0. \<open>tabBar_Remove_delegates\<close> is the
  hand-over, and \<open>tabBar_Remove_absent\<close> the case of a component that is not in the bar:
  \<^verbatim>\<open>false\<close>, and nothing changes.
\<close>

theorem tabbar_remove_selected_last_tab_panics:
  "fst (tabBar_Remove 10 (tp_run [OpAdd 10 11] NewTabPanel)) = Inl NilDereference \<and>
   tabPanel_Selected (snd (tabBar_Remove 10 (tp_run [OpAdd 10 11] NewTabPanel))) = 0 \<and>
   comps (snd (tabBar_Remove 10 (tp_run [OpAdd 10 11] NewTabPanel))) = [] \<and>
   tabBar_comps (snd (tabBar_Remove 10 (tp_run [OpAdd 10 11] NewTabPanel))) = []"
  by (simp add: tp_eval)

end
